theory Spec2Isabelle
  imports Main "HOL-Library.AList" "HOL-Library.Char_ord" "HOL-Library.List_Lexorder"
begin

section \<open>The discovery provider's indexing core\<close>

text \<open>
  A shallow embedding of \<^verbatim>\<open>src/tasks/index.py\<close> and of
  \<^verbatim>\<open>src/tasks/index_aggregate_user.py\<close>. Tables are lists of rows, a
  transaction is a function from the state to an error or the new state, and the
  chain client is a function from a hash to the block it serves.
\<close>

subsection \<open>Errors\<close>

datatype error =
    AssertionError string
  | Exception string
  | BlockNotFound string
  | TransactionNotFound string
  | IntegrityError string
  | KeyError string
  | ArgumentError string
  | DataError string
  | FlushError string
  | ApplierError string

subsection \<open>Data model (\<^verbatim>\<open>src/models/models.py\<close>)\<close>

text \<open>\<^verbatim>\<open>BlockMixin\<close>: the hash is the primary key, the number is nullable and unique.\<close>

record block =
  blockhash :: string
  number :: "int option"
  parenthash :: string
  is_current :: bool

text \<open>
  An entity-version row. The fields are those the indexing core reads or writes; the
  business id is the tuple of columns that names the entity (a user id, a pair of
  follower and followee, a triple of user, item and type).
\<close>

record 'k version_row =
  business_id :: 'k
  row_blockhash :: string
  row_blocknumber :: int
  row_txhash :: string
  row_is_current :: bool
  row_is_delete :: bool

datatype RepostType = repost_track | repost_playlist | repost_album

datatype SaveType = save_track | save_playlist | save_album

record entity_tables =
  users :: "int version_row list"
  tracks :: "int version_row list"
  playlists :: "int version_row list"
  follows :: "(int \<times> int) version_row list"
  reposts :: "(int \<times> int \<times> RepostType) version_row list"
  saves :: "(int \<times> int \<times> SaveType) version_row list"

record db_state =
  blocks :: "block list"
  entities :: entity_tables

text \<open>What the chain client serves. Hashes are kept in their hexadecimal text form,
  so \<^verbatim>\<open>web3.toHex\<close> is the identity.\<close>

record tx =
  tx_hash :: string
  tx_to :: string

record chain_block =
  hash :: string
  parentHash :: string
  block_number :: int
  timestamp :: int
  transactions :: "tx list"

definition default_padded_start_hash :: string where
  "default_padded_start_hash =
     ''0x0000000000000000000000000000000000000000000000000000000000000000''"

definition default_config_start_hash :: string where
  "default_config_start_hash = ''0x0''"

subsection \<open>The filter of the tip walk\<close>

text \<open>
  The walk of \<^verbatim>\<open>update_task\<close> builds its filter with Python's \<^verbatim>\<open>and\<close>:
  \<^verbatim>\<open>
  session.query(Block).filter(
      Block.blockhash == current_hash
      and Block.parenthash == parent_hash
      and Block.is_current == True)
  \<close>
  \<^verbatim>\<open>x and y\<close> is \<^verbatim>\<open>y\<close> when \<^verbatim>\<open>x\<close> is truthy and \<^verbatim>\<open>x\<close> otherwise. Each operand
  is a comparison of a column with a value, and the truth value of such a clause is
  that of comparing its two operands as objects: a column and a bound value are never
  the same object, so the clause is falsy.
\<close>

datatype column = Block_blockhash | Block_parenthash | Block_is_current

datatype literal = Str string | Bool bool

datatype clause = Eq column literal

fun clause_bool :: "clause \<Rightarrow> bool" where
  "clause_bool (Eq c v) = False"

definition py_and :: "clause \<Rightarrow> clause \<Rightarrow> clause" where
  "py_and x y = (if clause_bool x then y else x)"

fun column_value :: "block \<Rightarrow> column \<Rightarrow> literal" where
  "column_value b Block_blockhash = Str (blockhash b)"
| "column_value b Block_parenthash = Str (parenthash b)"
| "column_value b Block_is_current = Bool (is_current b)"

fun holds :: "clause \<Rightarrow> block \<Rightarrow> bool" where
  "holds (Eq c v) b = (column_value b c = v)"

definition latest_block_db_query :: "block list \<Rightarrow> string \<Rightarrow> string \<Rightarrow> block list" where
  "latest_block_db_query db current_hash parent_hash =
     filter (holds (py_and (py_and (Eq Block_blockhash (Str current_hash))
                                   (Eq Block_parenthash (Str parent_hash)))
                           (Eq Block_is_current (Bool True)))) db"

definition parent_block_query :: "block list \<Rightarrow> string \<Rightarrow> block list" where
  "parent_block_query db parent_hash = filter (\<lambda>b. blockhash b = parent_hash) db"

subsection \<open>Reconciliation (\<^verbatim>\<open>update_task\<close>)\<close>

text \<open>
  The first loop of \<^verbatim>\<open>update_task\<close>. It follows parent hashes through the chain
  client for as long as no intersection is found, so it need not return: the result
  \<open>None\<close> is the walk that goes on forever. A block the client does not serve raises.
\<close>

partial_function (option) tip_walk ::
  "(string \<Rightarrow> chain_block option) \<Rightarrow> block list \<Rightarrow> chain_block \<Rightarrow> chain_block list
     \<Rightarrow> (error + string \<times> chain_block list) option"
where
  "tip_walk getBlock db latest_block index_blocks_list =
     (let current_hash = hash latest_block;
          parent_hash = parentHash latest_block
      in if latest_block_db_query db current_hash parent_hash \<noteq> []
         then Some (Inr (current_hash, index_blocks_list))
         else
           (let index_blocks_list' = index_blocks_list @ [latest_block];
                block_intersection_found = (parent_block_query db parent_hash \<noteq> [])
            in if parent_hash = default_padded_start_hash
               then Some (Inr (default_config_start_hash, index_blocks_list'))
               else
                 (case getBlock parent_hash of
                    None \<Rightarrow> Some (Inl (BlockNotFound parent_hash))
                  | Some latest_block' \<Rightarrow>
                      if block_intersection_found
                      then Some (Inr (hash latest_block', index_blocks_list'))
                      else tip_walk getBlock db latest_block' index_blocks_list')))"

text \<open>
  The second loop: from the locally current row toward the intersection, along the
  stored parent hashes. It stops early when a parent is not stored.
\<close>

partial_function (option) revert_walk ::
  "block list \<Rightarrow> string \<Rightarrow> block \<Rightarrow> block list \<Rightarrow> block list option"
where
  "revert_walk db intersect_block_hash traverse_block revert_blocks_list =
     (if blockhash traverse_block \<noteq> intersect_block_hash
      then
        (case filter (\<lambda>b. blockhash b = parenthash traverse_block) db of
           [] \<Rightarrow> Some (revert_blocks_list @ [traverse_block])
         | parent # _ \<Rightarrow>
             revert_walk db intersect_block_hash parent (revert_blocks_list @ [traverse_block]))
      else Some revert_blocks_list)"

text \<open>
  The session block of \<^verbatim>\<open>update_task\<close>: the intersection hash, the index list in
  discovery order and the revert list.
\<close>

definition reconcile ::
  "(string \<Rightarrow> chain_block option) \<Rightarrow> block list \<Rightarrow> chain_block
     \<Rightarrow> (error + string \<times> chain_block list \<times> block list) option"
where
  "reconcile getBlock db latest_block =
     (case tip_walk getBlock db latest_block [] of
        None \<Rightarrow> None
      | Some (Inl e) \<Rightarrow> Some (Inl e)
      | Some (Inr (intersect_block_hash, index_blocks_list)) \<Rightarrow>
          (case filter is_current db of
             [db_current_block] \<Rightarrow>
               (case revert_walk db intersect_block_hash db_current_block [] of
                  None \<Rightarrow> None
                | Some revert_blocks_list \<Rightarrow>
                    Some (Inr (intersect_block_hash, index_blocks_list, revert_blocks_list)))
           | _ \<Rightarrow> Some (Inl (AssertionError ''Expected SINGLE row marked as current''))))"

text \<open>\<^verbatim>\<open>index_blocks\<close> walks its list from the last index down to 0.\<close>

definition block_order :: "chain_block list \<Rightarrow> chain_block list" where
  "block_order blocks_list = rev blocks_list"

subsection \<open>Transactions\<close>

text \<open>
  Modelled from the spec: \<^verbatim>\<open>db.scoped_session()\<close> is defined in
  \<^verbatim>\<open>src/utils/session_manager.py\<close>, which is not among the sources. Each block, or
  the whole revert batch, is one atomic transaction: a body that raises leaves the
  state as it was before the session, and the exception goes on to the caller.
\<close>

definition scoped_session ::
  "(db_state \<Rightarrow> error + db_state \<times> 'a) \<Rightarrow> db_state \<Rightarrow> (error + 'a) \<times> db_state"
where
  "scoped_session body db =
     (case body db of Inl e \<Rightarrow> (Inl e, db) | Inr (db', x) \<Rightarrow> (Inr x, db'))"

definition bind_result :: "error + 'a \<Rightarrow> ('a \<Rightarrow> error + 'b) \<Rightarrow> error + 'b" where
  "bind_result m f = (case m of Inl e \<Rightarrow> Inl e | Inr x \<Rightarrow> f x)"

text \<open>A loop whose body may raise: the first exception ends it.\<close>

fun fold_result :: "('a \<Rightarrow> 's \<Rightarrow> error + 's) \<Rightarrow> 'a list \<Rightarrow> 's \<Rightarrow> error + 's" where
  "fold_result f [] s = Inr s"
| "fold_result f (x # xs) s = bind_result (f x s) (fold_result f xs)"

subsection \<open>Revert (\<^verbatim>\<open>revert_blocks\<close>)\<close>

text \<open>\<^verbatim>\<open>.order_by(blocknumber.desc()).first()\<close>: a row of greatest block number, the
  earliest in table order among equals; no row when the query is empty.\<close>

fun first_desc :: "'k version_row list \<Rightarrow> 'k version_row option" where
  "first_desc [] = None"
| "first_desc (r # rs) =
     (case first_desc rs of
        None \<Rightarrow> Some r
      | Some m \<Rightarrow> if row_blocknumber r < row_blocknumber m then Some m else Some r)"

text \<open>\<^verbatim>\<open>previous_entry.is_current = True\<close> on the row the query returned.\<close>

definition set_current :: "'k version_row \<Rightarrow> 'k version_row list \<Rightarrow> 'k version_row list" where
  "set_current p table = map (\<lambda>r. if r = p then r\<lparr>row_is_current := True\<rparr> else r) table"

text \<open>\<^verbatim>\<open>session.delete(row)\<close>: the row is named by its business id, block hash and
  transaction hash, whatever its flag has become.\<close>

definition delete_row :: "'k version_row \<Rightarrow> 'k version_row list \<Rightarrow> 'k version_row list" where
  "delete_row d table =
     filter (\<lambda>r. \<not> (business_id r = business_id d \<and> row_blockhash r = row_blockhash d
                      \<and> row_txhash r = row_txhash d)) table"

text \<open>
  One turn of a \<^verbatim>\<open>for ..._to_revert in revert_..._entries\<close> loop, for a query
  for the previous entry that filters on the business id and on \<open>extra\<close>. Saves,
  reposts and follows have no filter beyond the business id.
\<close>

definition revert_entry ::
  "('k version_row \<Rightarrow> bool) \<Rightarrow> 'k version_row \<Rightarrow> 'k version_row list \<Rightarrow> 'k version_row list"
where
  "revert_entry extra to_revert table =
     (let previous_entry =
            first_desc (filter (\<lambda>r. business_id r = business_id to_revert \<and> extra r) table);
          table' = (case previous_entry of None \<Rightarrow> table | Some p \<Rightarrow> set_current p table)
      in delete_row to_revert table')"

definition stamped :: "string \<Rightarrow> 'k version_row list \<Rightarrow> 'k version_row list" where
  "stamped revert_hash table = filter (\<lambda>r. row_blockhash r = revert_hash) table"

definition revert_saves :: "string \<Rightarrow> (int \<times> int \<times> SaveType) version_row list
    \<Rightarrow> (int \<times> int \<times> SaveType) version_row list" where
  "revert_saves revert_hash table =
     fold (revert_entry (\<lambda>r. True)) (stamped revert_hash table) table"

definition revert_reposts :: "string \<Rightarrow> (int \<times> int \<times> RepostType) version_row list
    \<Rightarrow> (int \<times> int \<times> RepostType) version_row list" where
  "revert_reposts revert_hash table =
     fold (revert_entry (\<lambda>r. True)) (stamped revert_hash table) table"

definition revert_follows :: "string \<Rightarrow> (int \<times> int) version_row list
    \<Rightarrow> (int \<times> int) version_row list" where
  "revert_follows revert_hash table =
     fold (revert_entry (\<lambda>r. True)) (stamped revert_hash table) table"

text \<open>
  Playlists, tracks and users filter \<^verbatim>\<open>blocknumber < revert_block_number\<close> as well.
  The number of a Block row is nullable, and a column cannot be compared with
  \<^verbatim>\<open>None\<close> by \<^verbatim>\<open><\<close>: building that filter raises.
\<close>

definition revert_entry_below ::
  "int option \<Rightarrow> 'k version_row \<Rightarrow> 'k version_row list \<Rightarrow> error + 'k version_row list"
where
  "revert_entry_below revert_block_number to_revert table =
     (case revert_block_number of
        None \<Rightarrow> Inl (ArgumentError ''blocknumber < None'')
      | Some n \<Rightarrow> Inr (revert_entry (\<lambda>r. row_blocknumber r < n) to_revert table))"

definition revert_playlists :: "string \<Rightarrow> int option \<Rightarrow> int version_row list
    \<Rightarrow> error + int version_row list" where
  "revert_playlists revert_hash revert_block_number table =
     fold_result (revert_entry_below revert_block_number) (stamped revert_hash table) table"

definition revert_tracks :: "string \<Rightarrow> int option \<Rightarrow> int version_row list
    \<Rightarrow> error + int version_row list" where
  "revert_tracks revert_hash revert_block_number table =
     fold_result (revert_entry_below revert_block_number) (stamped revert_hash table) table"

definition revert_users :: "string \<Rightarrow> int option \<Rightarrow> int version_row list
    \<Rightarrow> error + int version_row list" where
  "revert_users revert_hash revert_block_number table =
     fold_result (revert_entry_below revert_block_number) (stamped revert_hash table) table"

text \<open>The three statements on the Block table inside the loop body.\<close>

definition revert_block_rows :: "string \<Rightarrow> string \<Rightarrow> block list \<Rightarrow> block list" where
  "revert_block_rows revert_hash parent_hash bs =
     filter (\<lambda>b. blockhash b \<noteq> revert_hash)
       (map (\<lambda>b. if blockhash b = parent_hash then b\<lparr>is_current := True\<rparr> else b)
          (map (\<lambda>b. if blockhash b = revert_hash then b\<lparr>is_current := False\<rparr> else b) bs))"

text \<open>The parent hash the loop body uses: the configured start hash stands for the
  padded zero hash.\<close>

definition revert_parent_hash :: "block \<Rightarrow> string" where
  "revert_parent_hash revert_block =
     (if parenthash revert_block = default_padded_start_hash
      then default_config_start_hash else parenthash revert_block)"

text \<open>The body of \<^verbatim>\<open>for revert_block in revert_blocks_list\<close>.\<close>

definition revert_one :: "db_state \<Rightarrow> block \<Rightarrow> error + db_state" where
  "revert_one s revert_block =
     (let revert_hash = blockhash revert_block;
          revert_block_number = number revert_block;
          parent_hash = revert_parent_hash revert_block;
          e = entities s;
          saves' = revert_saves revert_hash (saves e);
          reposts' = revert_reposts revert_hash (reposts e);
          follows' = revert_follows revert_hash (follows e)
      in bind_result (revert_playlists revert_hash revert_block_number (playlists e))
           (\<lambda>playlists'.
         bind_result (revert_tracks revert_hash revert_block_number (tracks e))
           (\<lambda>tracks'.
         bind_result (revert_users revert_hash revert_block_number (users e))
           (\<lambda>users'.
            Inr \<lparr>blocks = revert_block_rows revert_hash parent_hash (blocks s),
                 entities = \<lparr>users = users', tracks = tracks', playlists = playlists',
                             follows = follows', reposts = reposts', saves = saves'\<rparr>\<rparr>))))"

text \<open>
  \<^verbatim>\<open>revert_blocks\<close>: the error raised, if any, and the state left behind. The two
  checks of the length come before the session; the loop over the revert list is one
  session.
\<close>

definition revert_blocks :: "db_state \<Rightarrow> block list \<Rightarrow> error option \<times> db_state" where
  "revert_blocks db revert_blocks_list =
     (let num_revert_blocks = length revert_blocks_list
      in if num_revert_blocks = 0 then (None, db)
         else if num_revert_blocks > 500
         then (Some (Exception ''Unexpected revert, >0 blocks''), db)
         else
           (case scoped_session
                   (\<lambda>s. bind_result
                          (fold_result (\<lambda>revert_block s. revert_one s revert_block)
                             revert_blocks_list s)
                          (\<lambda>s'. Inr (s', ())))
                   db of
              (Inl e, db') \<Rightarrow> (Some e, db')
            | (Inr u, db') \<Rightarrow> (None, db')))"

subsection \<open>Side effects outside the database\<close>

text \<open>The keys of \<^verbatim>\<open>src/utils/redis_constants.py\<close>, by name.\<close>

datatype redis_key =
    latest_block_redis_key
  | latest_block_hash_redis_key
  | most_recent_indexed_block_redis_key
  | most_recent_indexed_block_hash_redis_key

datatype redis_value = Num int | Text string

text \<open>What a run does besides changing tables, in the order in which it does it.\<close>

datatype event =
    Commit
  | Remove_cached_user_ids "int list"
  | Remove_cached_track_ids "int list"
  | Remove_cached_playlist_ids "int list"
  | Redis_set redis_key redis_value

subsection \<open>Receipts (\<^verbatim>\<open>fetch_tx_receipts\<close>)\<close>

text \<open>
  \<^verbatim>\<open>web3.eth.getTransactionReceipt\<close> is a function from the transaction hash; \<open>None\<close>
  stands for the call that raises. The pool of five workers collects the results into
  a dictionary keyed by the transaction hash, here an association list with distinct
  keys; the dictionary does not depend on the order in which the workers finish.
\<close>

definition fetch_tx_receipt :: "(string \<Rightarrow> 'r option) \<Rightarrow> tx \<Rightarrow> (string \<times> 'r) option" where
  "fetch_tx_receipt getTransactionReceipt transaction =
     (case getTransactionReceipt (tx_hash transaction) of
        None \<Rightarrow> None
      | Some receipt \<Rightarrow> Some (tx_hash transaction, receipt))"

definition collect_receipt ::
  "(string \<Rightarrow> 'r option) \<Rightarrow> tx \<Rightarrow> (string \<times> 'r) list \<Rightarrow> (string \<times> 'r) list"
where
  "collect_receipt getTransactionReceipt transaction block_tx_with_receipts =
     (case fetch_tx_receipt getTransactionReceipt transaction of
        None \<Rightarrow> block_tx_with_receipts
      | Some (h, receipt) \<Rightarrow> AList.update h receipt block_tx_with_receipts)"

text \<open>The decimal text of a count, as the f-string of the exception prints it.\<close>

fun str :: "nat \<Rightarrow> string" where
  "str n = (if n < 10 then [''0123456789'' ! n]
            else str (n div 10) @ [''0123456789'' ! (n mod 10)])"

declare str.simps [simp del]

definition fetch_tx_receipts ::
  "(string \<Rightarrow> 'r option) \<Rightarrow> tx list \<Rightarrow> error + (string \<times> 'r) list"
where
  "fetch_tx_receipts getTransactionReceipt block_transactions =
     (let block_tx_with_receipts =
            fold (collect_receipt getTransactionReceipt) block_transactions [];
          num_processed_txs = length block_tx_with_receipts;
          num_submitted_txs = length block_transactions
      in if num_processed_txs \<noteq> num_submitted_txs
         then Inl (Exception (''index.py | fetch_tx_receipts Expected $''
                              @ str num_submitted_txs @ '' received ''
                              @ str num_processed_txs))
         else Inr block_tx_with_receipts)"

subsection \<open>Indexing (\<^verbatim>\<open>index_blocks\<close>)\<close>

text \<open>
  The six appliers (\<^verbatim>\<open>user_state_update\<close> and its siblings) are not among the
  sources. Each is a parameter: given the entity tables, its bucket of receipts, the
  block number and the block timestamp, it raises or returns the entity tables and
  what it reports. They run inside the caller's session and write entity rows only.
\<close>

record 'r task_context =
  getTransactionReceipt :: "string \<Rightarrow> 'r option"
  user_factory :: string
  track_factory :: string
  social_feature_factory :: string
  playlist_factory :: string
  user_library_factory :: string
  user_replica_set_manager :: string
  user_state_update ::
    "entity_tables \<Rightarrow> 'r list \<Rightarrow> int \<Rightarrow> int \<Rightarrow> error + entity_tables \<times> int \<times> int list"
  track_state_update ::
    "entity_tables \<Rightarrow> 'r list \<Rightarrow> int \<Rightarrow> int \<Rightarrow> error + entity_tables \<times> int \<times> int list"
  social_feature_state_update ::
    "entity_tables \<Rightarrow> 'r list \<Rightarrow> int \<Rightarrow> int \<Rightarrow> error + entity_tables \<times> int"
  user_replica_set_state_update ::
    "entity_tables \<Rightarrow> 'r list \<Rightarrow> int \<Rightarrow> int \<Rightarrow> error + entity_tables \<times> int"
  playlist_state_update ::
    "entity_tables \<Rightarrow> 'r list \<Rightarrow> int \<Rightarrow> int \<Rightarrow> error + entity_tables \<times> int \<times> int list"
  user_library_state_update ::
    "entity_tables \<Rightarrow> 'r list \<Rightarrow> int \<Rightarrow> int \<Rightarrow> error + entity_tables \<times> int"

text \<open>\<^verbatim>\<open>tx_receipt_dict[tx_hash]\<close> for each transaction of the sorted list.\<close>

fun lookup_receipts :: "(string \<times> 'r) list \<Rightarrow> tx list \<Rightarrow> error + (tx \<times> 'r) list" where
  "lookup_receipts tx_receipt_dict [] = Inr []"
| "lookup_receipts tx_receipt_dict (t # ts) =
     (case map_of tx_receipt_dict (tx_hash t) of
        None \<Rightarrow> Inl (KeyError (tx_hash t))
      | Some tx_receipt \<Rightarrow>
          bind_result (lookup_receipts tx_receipt_dict ts) (\<lambda>rs. Inr ((t, tx_receipt) # rs)))"

text \<open>The receipts whose transaction goes to one contract address, in sorted order.\<close>

definition factory_txs :: "string \<Rightarrow> (tx \<times> 'r) list \<Rightarrow> 'r list" where
  "factory_txs address txs = map snd (filter (\<lambda>(t, r). tx_to t = address) txs)"

text \<open>
  \<^verbatim>\<open>session.add(block_model)\<close> and its flush. The session holds the former current
  row, so a new row with the same primary key is refused by the session itself; the
  number is a 32-bit integer column; the hash is the primary key and a number that is
  not null is unique.
\<close>

definition add_block :: "block \<Rightarrow> block \<Rightarrow> block list \<Rightarrow> error + block list" where
  "add_block former_current_block block_model bs =
     (if blockhash block_model = blockhash former_current_block
      then Inl (FlushError ''New instance conflicts with persistent instance'')
      else if (case number block_model of
                 None \<Rightarrow> False
               | Some n \<Rightarrow> n < - (2 ^ 31) \<or> 2 ^ 31 \<le> n)
      then Inl (DataError ''integer out of range'')
      else if blockhash block_model \<in> blockhash ` set bs
      then Inl (IntegrityError ''blocks_pkey'')
      else if number block_model \<noteq> None \<and> number block_model \<in> number ` set bs
      then Inl (IntegrityError ''blocks_number_key'')
      else Inr (bs @ [block_model]))"

text \<open>
  The body of \<^verbatim>\<open>with db.scoped_session() as session\<close> for one block: the new state
  with, in order, the commit and the cache invalidations that follow it.
\<close>

definition index_block ::
  "'r task_context \<Rightarrow> chain_block \<Rightarrow> db_state \<Rightarrow> error + db_state \<times> event list"
where
  "index_block ctx block db =
     (let block_number = block_number block;
          block_timestamp = timestamp block;
          block_model = \<lparr>blockhash = hash block, number = Some block_number,
                         parenthash = parentHash block, is_current = True\<rparr>
      in case filter is_current (blocks db) of
           [former_current_block] \<Rightarrow>
             bind_result (fetch_tx_receipts (getTransactionReceipt ctx) (transactions block))
               (\<lambda>tx_receipt_dict.
             bind_result (lookup_receipts tx_receipt_dict
                            (sort_key tx_hash (transactions block)))
               (\<lambda>txs.
             bind_result (add_block former_current_block block_model
                            (map (\<lambda>b. if b = former_current_block
                                       then b\<lparr>is_current := False\<rparr> else b) (blocks db)))
               (\<lambda>bs.
             bind_result (user_state_update ctx (entities db)
                            (factory_txs (user_factory ctx) txs) block_number block_timestamp)
               (\<lambda>(e1, total_user_changes, user_ids).
             bind_result (track_state_update ctx e1
                            (factory_txs (track_factory ctx) txs) block_number block_timestamp)
               (\<lambda>(e2, total_track_changes, track_ids).
             bind_result (social_feature_state_update ctx e2
                            (factory_txs (social_feature_factory ctx) txs)
                            block_number block_timestamp)
               (\<lambda>(e3, social_feature_changes).
             bind_result (user_replica_set_state_update ctx e3
                            (factory_txs (user_replica_set_manager ctx) txs)
                            block_number block_timestamp)
               (\<lambda>(e4, user_replica_set_changes).
             bind_result (playlist_state_update ctx e4
                            (factory_txs (playlist_factory ctx) txs) block_number block_timestamp)
               (\<lambda>(e5, total_playlist_changes, playlist_ids).
             bind_result (user_library_state_update ctx e5
                            (factory_txs (user_library_factory ctx) txs)
                            block_number block_timestamp)
               (\<lambda>(e6, user_library_state_changed).
                  (let user_state_changed = (total_user_changes > 0);
                       track_state_changed = (total_track_changes > 0);
                       playlist_state_changed = (total_playlist_changes > 0);
                       track_lexeme_state_changed = (user_state_changed \<or> track_state_changed)
                   in Inr (\<lparr>blocks = bs, entities = e6\<rparr>,
                           [Commit]
                           @ (if user_state_changed \<and> user_ids \<noteq> []
                              then [Remove_cached_user_ids user_ids] else [])
                           @ (if track_lexeme_state_changed \<and> track_ids \<noteq> []
                              then [Remove_cached_track_ids track_ids] else [])
                           @ (if playlist_state_changed \<and> playlist_ids \<noteq> []
                              then [Remove_cached_playlist_ids playlist_ids] else []))))))))))))
         | _ \<Rightarrow> Inl (AssertionError ''Expected single row marked as current''))"

text \<open>The two \<^verbatim>\<open>redis.set\<close> calls that follow the session of a block.\<close>

definition publish :: "chain_block \<Rightarrow> event list" where
  "publish block =
     [Redis_set most_recent_indexed_block_redis_key (Num (block_number block)),
      Redis_set most_recent_indexed_block_hash_redis_key (Text (hash block))]"

text \<open>
  The loop of \<^verbatim>\<open>index_blocks\<close> over the blocks in application order. The trace pairs
  each event with the hash of the block during whose turn it happened. An exception
  ends the loop.
\<close>

fun index_loop ::
  "'r task_context \<Rightarrow> chain_block list \<Rightarrow> db_state \<Rightarrow> (string \<times> event) list
     \<Rightarrow> error option \<times> db_state \<times> (string \<times> event) list"
where
  "index_loop ctx [] db trace = (None, db, trace)"
| "index_loop ctx (block # rest) db trace =
     (case scoped_session (index_block ctx block) db of
        (Inl e, db') \<Rightarrow> (Some e, db', trace)
      | (Inr in_session, db') \<Rightarrow>
          index_loop ctx rest db'
            (trace @ map (Pair (hash block)) (in_session @ publish block)))"

definition index_blocks ::
  "'r task_context \<Rightarrow> db_state \<Rightarrow> chain_block list
     \<Rightarrow> error option \<times> db_state \<times> (string \<times> event) list"
where
  "index_blocks ctx db blocks_list = index_loop ctx (block_order blocks_list) db []"

subsection \<open>The first row (\<^verbatim>\<open>initialize_blocks_table_if_necessary\<close>)\<close>

definition truthy :: "int option \<Rightarrow> bool" where
  "truthy n = (case n of None \<Rightarrow> False | Some m \<Rightarrow> m \<noteq> 0)"

definition initialize_blocks_table_if_necessary ::
  "(string \<Rightarrow> chain_block option) \<Rightarrow> string \<Rightarrow> db_state \<Rightarrow> (error + event list) \<times> db_state"
where
  "initialize_blocks_table_if_necessary getBlock target_blockhash db =
     (case getBlock target_blockhash of
        None \<Rightarrow> (Inl (BlockNotFound target_blockhash), db)
      | Some target_block \<Rightarrow>
          scoped_session
            (\<lambda>db. case filter is_current (blocks db) of
                [] \<Rightarrow>
                  if blocks db \<noteq> []
                  then Inl (AssertionError
                              ''Corrupted DB State - Expect single row marked as current'')
                  else Inr (db\<lparr>blocks :=
                              [\<lparr>blockhash = target_blockhash,
                                number = (if block_number target_block = 0
                                             \<or> target_blockhash = default_config_start_hash
                                          then None else Some (block_number target_block)),
                                parenthash = target_blockhash,
                                is_current = True\<rparr>]\<rparr>, [])
              | [current_block_result] \<Rightarrow>
                  Inr (db,
                       (if truthy (number current_block_result)
                        then [Redis_set most_recent_indexed_block_redis_key
                                (Num (the (number current_block_result)))]
                        else [])
                       @ (if blockhash current_block_result \<noteq> []
                          then [Redis_set most_recent_indexed_block_hash_redis_key
                                  (Text (blockhash current_block_result))]
                          else []))
              | _ \<Rightarrow> Inl (AssertionError ''Expected SINGLE row marked as current''))
            db)"

subsection \<open>Predicates of the properties\<close>

text \<open>\<^verbatim>\<open>session.query(Block).filter_by(is_current=True).count() == 1\<close>.\<close>

definition one_current :: "block list \<Rightarrow> bool" where
  "one_current bs = (length (filter is_current bs) = 1)"

text \<open>
  A revert list that follows the stored chain: its first block is the row with hash
  \<open>cur\<close>, and each block's parent hash, as the loop body computes it, is the hash of
  another stored row, which the next block of the list then is.
\<close>

fun revert_chain :: "string set \<Rightarrow> string \<Rightarrow> block list \<Rightarrow> bool" where
  "revert_chain stored cur [] = True"
| "revert_chain stored cur (rb # rest) =
     (blockhash rb = cur \<and> revert_parent_hash rb \<noteq> cur \<and> revert_parent_hash rb \<in> stored
      \<and> revert_chain (stored - {cur}) (revert_parent_hash rb) rest)"

text \<open>
  A trace in which every event other than a commit, tagged with a block, comes after
  the commit tagged with that block.
\<close>

fun after_commit :: "string list \<Rightarrow> (string \<times> event) list \<Rightarrow> bool" where
  "after_commit committed [] = True"
| "after_commit committed ((h, Commit) # es) = after_commit (h # committed) es"
| "after_commit committed ((h, e) # es) = (h \<in> set committed \<and> after_commit committed es)"

subsection \<open>A reorganisation scenario\<close>

text \<open>
  The stored chain is \<open>H0 \<rightarrow> H1\<close> with \<open>H1\<close> current; the chain client serves
  \<open>H0 \<rightarrow> H1' \<rightarrow> H2'\<close>.
\<close>

definition row_H0 :: block where
  "row_H0 = \<lparr>blockhash = ''H0'', number = Some 10, parenthash = ''G'', is_current = False\<rparr>"

definition row_H1 :: block where
  "row_H1 = \<lparr>blockhash = ''H1'', number = Some 11, parenthash = ''H0'', is_current = True\<rparr>"

definition reorg_blocks :: "block list" where
  "reorg_blocks = [row_H0, row_H1]"

definition chain_H0 :: chain_block where
  "chain_H0 = \<lparr>hash = ''H0'', parentHash = ''G'', block_number = 10, timestamp = 100,
               transactions = []\<rparr>"

definition chain_H1' :: chain_block where
  "chain_H1' = \<lparr>hash = ''H1p'', parentHash = ''H0'', block_number = 11, timestamp = 111,
                transactions = []\<rparr>"

definition chain_H2' :: chain_block where
  "chain_H2' = \<lparr>hash = ''H2p'', parentHash = ''H1p'', block_number = 12, timestamp = 122,
                transactions = []\<rparr>"

definition reorg_client :: "string \<Rightarrow> chain_block option" where
  "reorg_client h =
     (if h = ''H0'' then Some chain_H0
      else if h = ''H1p'' then Some chain_H1'
      else if h = ''H2p'' then Some chain_H2'
      else None)"

text \<open>
  Entity rows for that scenario: for each kind, a version stamped with \<open>H0\<close> that the
  version stamped with \<open>H1\<close> superseded.
\<close>

definition old_row :: "'k \<Rightarrow> 'k version_row" where
  "old_row k = \<lparr>business_id = k, row_blockhash = ''H0'', row_blocknumber = 10,
                row_txhash = ''t0'', row_is_current = False, row_is_delete = False\<rparr>"

definition new_row :: "'k \<Rightarrow> 'k version_row" where
  "new_row k = \<lparr>business_id = k, row_blockhash = ''H1'', row_blocknumber = 11,
                row_txhash = ''t1'', row_is_current = True, row_is_delete = True\<rparr>"

definition reorg_entities :: entity_tables where
  "reorg_entities =
     \<lparr>users = [old_row 1, new_row 1],
      tracks = [old_row 7, new_row 7],
      playlists = [old_row 3, new_row 3],
      follows = [old_row (1, 2), new_row (1, 2)],
      reposts = [old_row (1, 7, repost_track), new_row (1, 7, repost_track)],
      saves = [old_row (1, 7, save_track), new_row (1, 7, save_track)]\<rparr>"

definition reorg_state :: db_state where
  "reorg_state = \<lparr>blocks = reorg_blocks, entities = reorg_entities\<rparr>"

subsection \<open>An indexing scenario\<close>

text \<open>
  Modelled from the spec: \<^verbatim>\<open>social_feature_state_update\<close> is defined in
  \<^verbatim>\<open>src/tasks/social_features.py\<close>, which is not among the sources. An applier
  creates entity-version rows during block application, and for a business id at most
  one row is current: a follow or unfollow receipt appends a version stamped with its
  block, current, and the version that was current for the pair ceases to be.
\<close>

record follow_receipt =
  receipt_txhash :: string
  receipt_blockhash :: string
  follower_user_id :: int
  followee_user_id :: int
  unfollow :: bool

definition apply_follow ::
  "int \<Rightarrow> follow_receipt \<Rightarrow> (int \<times> int) version_row list \<Rightarrow> (int \<times> int) version_row list"
where
  "apply_follow blocknumber r table =
     map (\<lambda>x. if business_id x = (follower_user_id r, followee_user_id r) \<and> row_is_current x
               then x\<lparr>row_is_current := False\<rparr> else x) table
     @ [\<lparr>business_id = (follower_user_id r, followee_user_id r),
         row_blockhash = receipt_blockhash r, row_blocknumber = blocknumber,
         row_txhash = receipt_txhash r, row_is_current = True, row_is_delete = unfollow r\<rparr>]"

definition follow_state_update ::
  "entity_tables \<Rightarrow> follow_receipt list \<Rightarrow> int \<Rightarrow> int \<Rightarrow> error + entity_tables \<times> int"
where
  "follow_state_update e txs blocknumber block_timestamp =
     Inr (e\<lparr>follows := fold (apply_follow blocknumber) txs (follows e)\<rparr>, int (length txs))"

text \<open>The other appliers of the scenario find nothing to do.\<close>

definition no_update ::
  "entity_tables \<Rightarrow> follow_receipt list \<Rightarrow> int \<Rightarrow> int \<Rightarrow> error + entity_tables \<times> int"
where
  "no_update e txs blocknumber block_timestamp = Inr (e, 0)"

definition no_ids_update ::
  "entity_tables \<Rightarrow> follow_receipt list \<Rightarrow> int \<Rightarrow> int
     \<Rightarrow> error + entity_tables \<times> int \<times> int list"
where
  "no_ids_update e txs blocknumber block_timestamp = Inr (e, 0, [])"

definition follow_context :: "follow_receipt task_context" where
  "follow_context =
     \<lparr>getTransactionReceipt =
        (\<lambda>h. if h = ''t2''
              then Some \<lparr>receipt_txhash = ''t2'', receipt_blockhash = ''B1'',
                         follower_user_id = 1, followee_user_id = 2, unfollow = True\<rparr>
              else None),
      user_factory = ''user'', track_factory = ''track'', social_feature_factory = ''social'',
      playlist_factory = ''playlist'', user_library_factory = ''library'',
      user_replica_set_manager = ''replica'',
      user_state_update = no_ids_update, track_state_update = no_ids_update,
      social_feature_state_update = follow_state_update,
      user_replica_set_state_update = no_update,
      playlist_state_update = no_ids_update,
      user_library_state_update = no_update\<rparr>"

text \<open>The same context with appliers that report changed ids.\<close>

definition report_update ::
  "int list \<Rightarrow> entity_tables \<Rightarrow> follow_receipt list \<Rightarrow> int \<Rightarrow> int
     \<Rightarrow> error + entity_tables \<times> int \<times> int list"
where
  "report_update ids e txs blocknumber block_timestamp = Inr (e, 1, ids)"

definition report_context :: "follow_receipt task_context" where
  "report_context =
     follow_context\<lparr>user_state_update := report_update [1],
                    track_state_update := report_update [7],
                    playlist_state_update := report_update [3]\<rparr>"

text \<open>
  Before \<open>B1\<close>: the stored chain \<open>H0 \<rightarrow> H1\<close> with \<open>H1\<close> current, and user 1 following
  user 2 since \<open>H1\<close>. \<open>B1\<close> carries the unfollow; \<open>B2\<close> and \<open>B3\<close> are empty. \<open>B9\<close> is a
  block with a transaction whose receipt the client does not serve.
\<close>

definition follow_1_2 :: "(int \<times> int) version_row" where
  "follow_1_2 = \<lparr>business_id = (1, 2), row_blockhash = ''H1'', row_blocknumber = 11,
                 row_txhash = ''t1'', row_is_current = True, row_is_delete = False\<rparr>"

definition unfollow_1_2 :: "(int \<times> int) version_row" where
  "unfollow_1_2 = \<lparr>business_id = (1, 2), row_blockhash = ''B1'', row_blocknumber = 12,
                   row_txhash = ''t2'', row_is_current = True, row_is_delete = True\<rparr>"

definition follow_entities :: entity_tables where
  "follow_entities = \<lparr>users = [], tracks = [], playlists = [], follows = [follow_1_2],
                      reposts = [], saves = []\<rparr>"

definition follow_state :: db_state where
  "follow_state = \<lparr>blocks = reorg_blocks, entities = follow_entities\<rparr>"

definition chain_B1 :: chain_block where
  "chain_B1 = \<lparr>hash = ''B1'', parentHash = ''H1'', block_number = 12, timestamp = 120,
               transactions = [\<lparr>tx_hash = ''t2'', tx_to = ''social''\<rparr>]\<rparr>"

definition chain_B2 :: chain_block where
  "chain_B2 = \<lparr>hash = ''B2'', parentHash = ''B1'', block_number = 13, timestamp = 130,
               transactions = []\<rparr>"

definition chain_B3 :: chain_block where
  "chain_B3 = \<lparr>hash = ''B3'', parentHash = ''B2'', block_number = 14, timestamp = 140,
               transactions = []\<rparr>"

definition chain_B9 :: chain_block where
  "chain_B9 = \<lparr>hash = ''B9'', parentHash = ''H1'', block_number = 12, timestamp = 120,
               transactions = [\<lparr>tx_hash = ''t9'', tx_to = ''social''\<rparr>]\<rparr>"

definition row_of :: "chain_block \<Rightarrow> bool \<Rightarrow> block" where
  "row_of b c = \<lparr>blockhash = hash b, number = Some (block_number b),
                 parenthash = parentHash b, is_current = c\<rparr>"

definition indexed_state :: db_state where
  "indexed_state =
     \<lparr>blocks = [row_H0, row_H1\<lparr>is_current := False\<rparr>, row_of chain_B1 False,
                row_of chain_B2 False, row_of chain_B3 True],
      entities = follow_entities\<lparr>follows :=
                   [follow_1_2\<lparr>row_is_current := False\<rparr>, unfollow_1_2]\<rparr>\<rparr>"

subsection \<open>A stored chain with a missing parent\<close>

text \<open>
  One stored row, \<open>H1\<close>, current, whose parent \<open>H0\<close> is not stored; the client serves a
  chain that starts at \<open>X1\<close>, whose parent hash is the padded zero hash.
\<close>

definition orphan_state :: db_state where
  "orphan_state =
     \<lparr>blocks = [row_H1],
      entities = \<lparr>users = [], tracks = [], playlists = [], follows = [], reposts = [],
                  saves = []\<rparr>\<rparr>"

definition chain_X1 :: chain_block where
  "chain_X1 = \<lparr>hash = ''X1'', parentHash = default_padded_start_hash, block_number = 1,
               timestamp = 1, transactions = []\<rparr>"

definition orphan_client :: "string \<Rightarrow> chain_block option" where
  "orphan_client h = (if h = ''X1'' then Some chain_X1 else None)"

definition report_state :: db_state where
  "report_state =
     \<lparr>blocks = [row_H0, row_H1\<lparr>is_current := False\<rparr>, row_of chain_B1 True],
      entities = follow_entities\<lparr>follows :=
                   [follow_1_2\<lparr>row_is_current := False\<rparr>, unfollow_1_2]\<rparr>\<rparr>"

section \<open>Properties\<close>

subsection \<open>Reconciliation\<close>

lemma latest_block_db_query_eq:
  "latest_block_db_query db c p = filter (\<lambda>b. blockhash b = c) db"
  unfolding latest_block_db_query_def py_and_def
  by (rule filter_cong) simp_all

text \<open>
  C1. The stored current row is \<open>H1\<close>, child of the stored \<open>H0\<close>; the client serves
  \<open>H0 \<rightarrow> H1' \<rightarrow> H2'\<close> and the walk starts at the tip \<open>H2'\<close>. Then reconciliation
  returns: the intersection is \<open>H0\<close>, the revert list is \<open>[H1]\<close>, and the index list is
  applied in the order \<open>H1'\<close>, \<open>H2'\<close>.
\<close>

theorem reconcile_reorg:
  assumes cur: "filter is_current db = [r1]"
    and r1: "blockhash r1 = h1" "parenthash r1 = h0" "h1 \<noteq> h0"
    and h0: "h0 \<in> blockhash ` set db"
    and new: "hash b2 \<notin> blockhash ` set db" "hash b1 \<notin> blockhash ` set db"
    and chain: "parentHash b2 = hash b1" "parentHash b1 = h0"
    and client: "getBlock (hash b1) = Some b1" "getBlock h0 = Some b0" "hash b0 = h0"
    and start: "hash b1 \<noteq> default_padded_start_hash" "h0 \<noteq> default_padded_start_hash"
  shows "reconcile getBlock db b2 = Some (Inr (h0, [b2, b1], [r1]))
         \<and> block_order [b2, b1] = [b1, b2]"
proof -
  have e2: "filter (\<lambda>b. blockhash b = hash b2) db = []"
    using new(1) by (simp add: filter_empty_conv) (metis imageI)
  have e1: "filter (\<lambda>b. blockhash b = hash b1) db = []"
    using new(2) by (simp add: filter_empty_conv) (metis imageI)
  have n0: "filter (\<lambda>b. blockhash b = h0) db \<noteq> []"
    using h0 by (auto simp add: filter_empty_conv)
  have step1: "tip_walk getBlock db b2 [] = tip_walk getBlock db b1 [b2]"
    by (subst tip_walk.simps)
       (simp add: latest_block_db_query_eq parent_block_query_def e2 e1 chain client start)
  have step2: "tip_walk getBlock db b1 [b2] = Some (Inr (h0, [b2, b1]))"
    by (subst tip_walk.simps)
       (simp add: latest_block_db_query_eq parent_block_query_def e1 n0 chain client start)
  obtain p ps where p: "filter (\<lambda>b. blockhash b = h0) db = p # ps"
    using n0 by (cases "filter (\<lambda>b. blockhash b = h0) db") auto
  then have "p \<in> set (filter (\<lambda>b. blockhash b = h0) db)" by simp
  then have ph: "blockhash p = h0" by simp
  have w2: "revert_walk db h0 p [r1] = Some [r1]"
    by (subst revert_walk.simps) (simp add: ph)
  have w1: "revert_walk db h0 r1 [] = Some [r1]"
    by (subst revert_walk.simps) (simp add: r1 p w2)
  show ?thesis
    by (simp add: reconcile_def step1 step2 cur w1 block_order_def)
qed

theorem reconcile_reorg_witness:
  "reconcile reorg_client reorg_blocks chain_H2' = Some (Inr (''H0'', [chain_H2', chain_H1'], [row_H1]))
   \<and> block_order [chain_H2', chain_H1'] = [chain_H1', chain_H2']"
  using reconcile_reorg [of reorg_blocks row_H1 "''H1''" "''H0''" chain_H2' chain_H1'
      reorg_client chain_H0]
  by (simp add: reorg_blocks_def row_H0_def row_H1_def chain_H0_def chain_H1'_def chain_H2'_def
      reorg_client_def default_padded_start_hash_def)

text \<open>
  C6. The walk takes the visited hash for the intersection as soon as a stored row has
  that hash. Here the tip is \<open>H0\<close>, stored but not current: the filter returns the row,
  and the walk stops at once with \<open>H0\<close> and an empty index list.
\<close>

theorem tip_walk_stops_at_non_current_row:
  "latest_block_db_query reorg_blocks (hash chain_H0) (parentHash chain_H0) = [row_H0]
   \<and> \<not> is_current row_H0
   \<and> tip_walk reorg_client reorg_blocks chain_H0 [] = Some (Inr (''H0'', []))"
  by (subst tip_walk.simps)
     (simp add: latest_block_db_query_eq reorg_blocks_def row_H0_def row_H1_def chain_H0_def)

subsection \<open>Revert\<close>

text \<open>
  C5. A revert list of more than 500 blocks makes \<^verbatim>\<open>revert_blocks\<close> raise with the
  state as it was: the Block table and the six entity tables are untouched. An empty
  revert list returns at once, with the state as it was.
\<close>

theorem revert_blocks_bound:
  "(length revert_blocks_list > 500 \<longrightarrow>
      revert_blocks db revert_blocks_list
        = (Some (Exception ''Unexpected revert, >0 blocks''), db))
   \<and> revert_blocks db [] = (None, db)"
  by (auto simp add: revert_blocks_def Let_def)

theorem revert_blocks_bound_witness:
  "length (replicate 501 row_H1) > 500
   \<and> revert_blocks reorg_state (replicate 501 row_H1)
       = (Some (Exception ''Unexpected revert, >0 blocks''), reorg_state)"
  using revert_blocks_bound [of "replicate 501 row_H1" reorg_state] by simp

lemma first_desc_None: "first_desc xs = None \<longleftrightarrow> xs = []"
  by (cases xs) (auto split: option.splits)

lemma first_desc_max:
  "first_desc xs = Some m \<Longrightarrow>
     m \<in> set xs \<and> (\<forall>r \<in> set xs. row_blocknumber r \<le> row_blocknumber m)"
proof (induction xs arbitrary: m)
  case Nil
  then show ?case by simp
next
  case (Cons x xs)
  show ?case
  proof (cases "first_desc xs")
    case None
    then have "xs = []" by (simp add: first_desc_None)
    with Cons.prems show ?thesis by simp
  next
    case (Some m')
    from Cons.IH [OF Some] Cons.prems Some show ?thesis
      by (auto split: if_splits)
  qed
qed

text \<open>
  C4. Reverting \<open>H1\<close> (number 11) where every kind has a version stamped \<open>H0\<close> (number
  10, not current) and its successor stamped \<open>H1\<close>. For users, tracks and playlists the
  version of number 10 becomes current and the version of \<open>H1\<close> is deleted. For
  follows, reposts and saves the version of \<open>H1\<close> is deleted too, but the version of
  number 10 stays not current: the query for the previous entry has no bound on the
  block number, so it returns the very row being reverted.
\<close>

theorem revert_social_rows:
  "revert_blocks reorg_state [row_H1] =
     (None, \<lparr>blocks = [row_H0\<lparr>is_current := True\<rparr>],
        entities = \<lparr>users = [(old_row 1)\<lparr>row_is_current := True\<rparr>],
          tracks = [(old_row 7)\<lparr>row_is_current := True\<rparr>],
          playlists = [(old_row 3)\<lparr>row_is_current := True\<rparr>],
          follows = [old_row (1, 2)],
          reposts = [old_row (1, 7, repost_track)],
          saves = [old_row (1, 7, save_track)]\<rparr>\<rparr>)"
  by (simp add: revert_blocks_def revert_one_def reorg_state_def reorg_entities_def reorg_blocks_def
      row_H0_def row_H1_def old_row_def new_row_def revert_block_rows_def revert_users_def
      revert_tracks_def revert_playlists_def revert_follows_def revert_reposts_def revert_saves_def
      stamped_def revert_entry_def revert_entry_below_def set_current_def delete_row_def
      scoped_session_def bind_result_def
      revert_parent_hash_def default_padded_start_hash_def Let_def)

subsection \<open>Receipts\<close>

lemma scoped_session_rollback:
  "scoped_session body db = (Inl e, db') \<Longrightarrow> db' = db"
  by (auto simp add: scoped_session_def split: sum.splits prod.splits)

lemma length_update:
  "length (AList.update k v al) = (if k \<in> fst ` set al then length al else Suc (length al))"
  by (induction al) auto

lemma collect_length:
  "length (fold (collect_receipt g) txs d)
     \<le> length d + length (filter (\<lambda>t. g (tx_hash t) \<noteq> None) txs)"
proof (induction txs arbitrary: d)
  case Nil
  then show ?case by simp
next
  case (Cons t txs)
  have "length (collect_receipt g t d) \<le> length d + (if g (tx_hash t) \<noteq> None then 1 else 0)"
    by (auto simp add: collect_receipt_def fetch_tx_receipt_def length_update split: option.splits)
  with Cons.IH [of "collect_receipt g t d"] show ?case
    by (auto split: if_splits)
qed

lemma collect_map_of:
  "map_of (fold (collect_receipt g) txs d) h =
     (if h \<in> tx_hash ` {t \<in> set txs. g (tx_hash t) \<noteq> None} then g h else map_of d h)"
proof (induction txs arbitrary: d)
  case Nil
  then show ?case by simp
next
  case (Cons t txs)
  have step: "map_of (collect_receipt g t d) h =
      (if h = tx_hash t \<and> g (tx_hash t) \<noteq> None then g h else map_of d h)"
    by (auto simp add: collect_receipt_def fetch_tx_receipt_def update_conv' split: option.splits)
  show ?case
    by (simp add: Cons.IH step) auto
qed

lemma collect_length_distinct:
  "distinct (map tx_hash txs) \<Longrightarrow> \<forall>t \<in> set txs. g (tx_hash t) \<noteq> None
     \<Longrightarrow> \<forall>t \<in> set txs. tx_hash t \<notin> fst ` set d
     \<Longrightarrow> length (fold (collect_receipt g) txs d) = length d + length txs"
proof (induction txs arbitrary: d)
  case Nil
  then show ?case by simp
next
  case (Cons t txs)
  from Cons.prems obtain r where r: "g (tx_hash t) = Some r" by auto
  have cd: "collect_receipt g t d = AList.update (tx_hash t) r d"
    by (simp add: collect_receipt_def fetch_tx_receipt_def r)
  have len: "length (collect_receipt g t d) = Suc (length d)"
    using Cons.prems(3) by (simp add: cd length_update)
  have keys: "fst ` set (collect_receipt g t d) = insert (tx_hash t) (fst ` set d)"
    by (simp add: cd dom_update)
  have "\<forall>u \<in> set txs. tx_hash u \<notin> fst ` set (collect_receipt g t d)"
    using Cons.prems(1,3) by (auto simp add: keys) (metis imageI)
  with Cons.IH [of "collect_receipt g t d"] Cons.prems(1,2) len show ?case
    by simp
qed

lemma fetch_fails:
  assumes "length (filter (\<lambda>t. g (tx_hash t) \<noteq> None) txs) \<noteq> length txs"
  shows "\<exists>e. fetch_tx_receipts g txs = Inl e"
proof -
  have "length (filter (\<lambda>t. g (tx_hash t) \<noteq> None) txs) \<le> length txs"
    by simp
  with assms have "length (filter (\<lambda>t. g (tx_hash t) \<noteq> None) txs) < length txs"
    by linarith
  with collect_length [of g txs "[]"] have "length (fold (collect_receipt g) txs []) < length txs"
    by simp
  then show ?thesis
    by (simp add: fetch_tx_receipts_def Let_def)
qed

lemma fetch_covers:
  assumes "fetch_tx_receipts g txs = Inr d" and "t \<in> set txs"
  shows "map_of d (tx_hash t) = g (tx_hash t) \<and> g (tx_hash t) \<noteq> None"
proof -
  from assms(1) have d: "d = fold (collect_receipt g) txs []"
    and len: "length (fold (collect_receipt g) txs []) = length txs"
    by (auto simp add: fetch_tx_receipts_def Let_def split: if_splits)
  have all: "length (filter (\<lambda>t. g (tx_hash t) \<noteq> None) txs) = length txs"
  proof (rule ccontr)
    assume "length (filter (\<lambda>t. g (tx_hash t) \<noteq> None) txs) \<noteq> length txs"
    from fetch_fails [OF this] assms(1) show False by auto
  qed
  then have "filter (\<lambda>t. g (tx_hash t) \<noteq> None) txs = txs"
    by (metis length_filter_less filter_True less_irrefl_nat)
  then have ok: "g (tx_hash t) \<noteq> None"
    using assms(2) by (metis (mono_tags, lifting) mem_Collect_eq set_filter)
  with assms(2) have "tx_hash t \<in> tx_hash ` {t \<in> set txs. g (tx_hash t) \<noteq> None}"
    by blast
  then show ?thesis
    using ok by (simp add: d collect_map_of)
qed

lemma fetch_succeeds:
  assumes "distinct (map tx_hash txs)" and "\<forall>t \<in> set txs. g (tx_hash t) \<noteq> None"
  shows "\<exists>d. fetch_tx_receipts g txs = Inr d"
  using collect_length_distinct [OF assms, of "[]"]
  by (simp add: fetch_tx_receipts_def Let_def)

lemma bind_result_InrE:
  assumes "bind_result m f = Inr y"
  obtains x where "m = Inr x" and "f x = Inr y"
  using assms by (cases m) (simp_all add: bind_result_def)

lemma bind_result_Inr2E:
  assumes "bind_result m (\<lambda>(a, b). f a b) = Inr y"
  obtains a b where "m = Inr (a, b)" and "f a b = Inr y"
  using assms by (cases m) (auto simp add: bind_result_def)

lemma bind_result_Inr3E:
  assumes "bind_result m (\<lambda>(a, b, c). f a b c) = Inr y"
  obtains a b c where "m = Inr (a, b, c)" and "f a b c = Inr y"
  using assms by (cases m) (auto simp add: bind_result_def)

lemma index_block_current:
  assumes "index_block ctx block db = Inr r"
  shows "\<exists>c. filter is_current (blocks db) = [c]"
proof (cases "filter is_current (blocks db)")
  case Nil
  with assms show ?thesis by (simp add: index_block_def)
next
  case (Cons x xs)
  with assms show ?thesis by (cases xs) (simp_all add: index_block_def)
qed

lemma index_block_Inr:
  assumes r: "index_block ctx block db = Inr (db', evs)"
  shows "\<exists>c d txs bs e1 uc uids e2 tc tids e3 sc e4 rc e5 pc pids e6 lc.
       filter is_current (blocks db) = [c]
       \<and> fetch_tx_receipts (getTransactionReceipt ctx) (transactions block) = Inr d
       \<and> lookup_receipts d (sort_key tx_hash (transactions block)) = Inr txs
       \<and> add_block c \<lparr>blockhash = hash block, number = Some (block_number block),
                       parenthash = parentHash block, is_current = True\<rparr>
            (map (\<lambda>b. if b = c then b\<lparr>is_current := False\<rparr> else b) (blocks db)) = Inr bs
       \<and> user_state_update ctx (entities db) (factory_txs (user_factory ctx) txs)
           (block_number block) (timestamp block) = Inr (e1, uc, uids)
       \<and> track_state_update ctx e1 (factory_txs (track_factory ctx) txs)
           (block_number block) (timestamp block) = Inr (e2, tc, tids)
       \<and> social_feature_state_update ctx e2 (factory_txs (social_feature_factory ctx) txs)
           (block_number block) (timestamp block) = Inr (e3, sc)
       \<and> user_replica_set_state_update ctx e3 (factory_txs (user_replica_set_manager ctx) txs)
           (block_number block) (timestamp block) = Inr (e4, rc)
       \<and> playlist_state_update ctx e4 (factory_txs (playlist_factory ctx) txs)
           (block_number block) (timestamp block) = Inr (e5, pc, pids)
       \<and> user_library_state_update ctx e5 (factory_txs (user_library_factory ctx) txs)
           (block_number block) (timestamp block) = Inr (e6, lc)
       \<and> db' = \<lparr>blocks = bs, entities = e6\<rparr>
       \<and> evs = Commit
           # (if 0 < uc \<and> uids \<noteq> [] then [Remove_cached_user_ids uids] else [])
           @ (if (0 < uc \<or> 0 < tc) \<and> tids \<noteq> [] then [Remove_cached_track_ids tids] else [])
           @ (if 0 < pc \<and> pids \<noteq> [] then [Remove_cached_playlist_ids pids] else [])"
proof -
  from index_block_current [OF r] obtain c where c: "filter is_current (blocks db) = [c]"
    by blast
  from r show ?thesis
    unfolding index_block_def Let_def c list.case
    apply -
    apply (erule bind_result_InrE)
    apply (erule bind_result_InrE)
    apply (erule bind_result_InrE)
    apply (erule bind_result_Inr3E)
    apply (erule bind_result_Inr3E)
    apply (erule bind_result_Inr2E)
    apply (erule bind_result_Inr2E)
    apply (erule bind_result_Inr3E)
    apply (erule bind_result_Inr2E)
    apply (simp only: sum.inject prod.inject)
    apply (intro exI conjI)
    apply (rule refl | assumption | simp)+
    done
qed

lemma index_block_fetch_fails:
  assumes "fetch_tx_receipts (getTransactionReceipt ctx) (transactions block) = Inl e"
  shows "\<exists>e'. scoped_session (index_block ctx block) db = (Inl e', db)"
proof (cases "index_block ctx block db")
  case (Inl e')
  then show ?thesis by (simp add: scoped_session_def)
next
  case (Inr r)
  obtain db' evs where "r = (db', evs)" by (cases r)
  with Inr index_block_Inr [of ctx block db db' evs] assms show ?thesis
    by auto
qed

text \<open>
  C7. When the number of receipts fetched differs from the number of transactions of
  the block, \<^verbatim>\<open>fetch_tx_receipts\<close> raises, and the session of the block ends with an
  error and the state it started from: no entity row and no Block row has changed.
  When every receipt of a block (its transactions have distinct hashes) is fetched,
  \<^verbatim>\<open>fetch_tx_receipts\<close> returns, and what it returns maps every submitted transaction
  to its receipt.
\<close>

theorem fetch_tx_receipts_all_or_nothing:
  "(length (filter (\<lambda>t. getTransactionReceipt ctx (tx_hash t) \<noteq> None) (transactions block))
      \<noteq> length (transactions block) \<longrightarrow>
      (\<exists>e. fetch_tx_receipts (getTransactionReceipt ctx) (transactions block) = Inl e)
      \<and> (\<exists>e. scoped_session (index_block ctx block) db = (Inl e, db)))
   \<and> (distinct (map tx_hash txs) \<and> (\<forall>t \<in> set txs. g (tx_hash t) \<noteq> None) \<longrightarrow>
      (\<exists>d. fetch_tx_receipts g txs = Inr d
           \<and> (\<forall>t \<in> set txs. map_of d (tx_hash t) = g (tx_hash t) \<and> g (tx_hash t) \<noteq> None)))"
proof (intro conjI impI)
  assume a: "length (filter (\<lambda>t. getTransactionReceipt ctx (tx_hash t) \<noteq> None)
                (transactions block)) \<noteq> length (transactions block)"
  from fetch_fails [OF a]
  show f: "\<exists>e. fetch_tx_receipts (getTransactionReceipt ctx) (transactions block) = Inl e" .
  from f index_block_fetch_fails
  show "\<exists>e. scoped_session (index_block ctx block) db = (Inl e, db)" by blast
next
  assume b: "distinct (map tx_hash txs) \<and> (\<forall>t \<in> set txs. g (tx_hash t) \<noteq> None)"
  then obtain d where d: "fetch_tx_receipts g txs = Inr d"
    using fetch_succeeds by blast
  with fetch_covers [OF d]
  show "\<exists>d. fetch_tx_receipts g txs = Inr d
           \<and> (\<forall>t \<in> set txs. map_of d (tx_hash t) = g (tx_hash t) \<and> g (tx_hash t) \<noteq> None)"
    by blast
qed

theorem fetch_tx_receipts_all_or_nothing_witness:
  "(fetch_tx_receipts (getTransactionReceipt follow_context) (transactions chain_B9)
      = Inl (Exception ''index.py | fetch_tx_receipts Expected $1 received 0'')
    \<and> (\<exists>e. scoped_session (index_block follow_context chain_B9) follow_state
              = (Inl e, follow_state)))
   \<and> (\<exists>d. fetch_tx_receipts (getTransactionReceipt follow_context) (transactions chain_B1) = Inr d
          \<and> map_of d ''t2'' = getTransactionReceipt follow_context ''t2'')"
  using fetch_tx_receipts_all_or_nothing
          [of follow_context chain_B9 follow_state "transactions chain_B1"
              "getTransactionReceipt follow_context"]
  by (simp add: follow_context_def chain_B9_def chain_B1_def fetch_tx_receipts_def
      collect_receipt_def fetch_tx_receipt_def str.simps)

subsection \<open>Side effects\<close>

lemma after_commit_same:
  "h \<in> set cs \<Longrightarrow> after_commit cs (map (Pair h) evs)"
proof (induction evs arbitrary: cs)
  case Nil
  then show ?case by simp
next
  case (Cons e evs)
  then show ?case by (cases e) simp_all
qed

lemma after_commit_append:
  "after_commit cs xs \<Longrightarrow> (\<And>cs'. after_commit cs' ys) \<Longrightarrow> after_commit cs (xs @ ys)"
proof (induction cs xs rule: after_commit.induct)
  case (1 committed)
  then show ?case by simp
qed simp_all

lemma index_block_commits:
  "index_block ctx block db = Inr (db', evs) \<Longrightarrow> \<exists>rest. evs = Commit # rest"
  using index_block_Inr [of ctx block db db' evs] by blast

lemma index_loop_trace:
  "after_commit cs trace \<Longrightarrow> after_commit cs (snd (snd (index_loop ctx bs db trace)))"
proof (induction bs arbitrary: db trace)
  case Nil
  then show ?case by simp
next
  case (Cons b bs)
  show ?case
  proof (cases "index_block ctx b db")
    case (Inl e)
    then show ?thesis
      using Cons.prems by (simp add: scoped_session_def)
  next
    case (Inr r)
    obtain db' evs where r: "r = (db', evs)" by (cases r)
    from index_block_commits Inr r obtain rest where evs: "evs = Commit # rest"
      by blast
    have "\<And>cs'. after_commit cs' (map (Pair (hash b)) (evs @ publish b))"
      using after_commit_same [of "hash b" _ "rest @ publish b"]
      by (simp add: evs)
    with Cons.prems
    have "after_commit cs (trace @ map (Pair (hash b)) (evs @ publish b))"
      by (rule after_commit_append)
    from Cons.IH [OF this] show ?thesis
      by (simp add: scoped_session_def Inr r)
  qed
qed

text \<open>
  C8. In the trace of \<^verbatim>\<open>index_blocks\<close>, every cache invalidation and every publication
  to redis made for a block comes after the commit of that block. A block whose
  session raises adds nothing to the trace: the loop ends with the error, with the
  state as it was before that block and with the trace as it was. A block whose
  session returns adds to the trace, in this order: its commit; the invalidation of the
  user ids, of the track ids and of the playlist ids that the appliers reported
  changed; the publication of its number and the publication of its hash.
\<close>

theorem side_effects_after_commit:
  "after_commit [] (snd (snd (index_blocks ctx db blocks_list)))
   \<and> index_blocks ctx db blocks_list = index_loop ctx (rev blocks_list) db []
   \<and> (index_block ctx block db = Inl e \<longrightarrow>
        index_loop ctx (block # rest) db trace = (Some e, db, trace))
   \<and> (index_block ctx block db = Inr (db', evs) \<longrightarrow>
        index_loop ctx (block # rest) db trace
          = index_loop ctx rest db'
              (trace @ map (Pair (hash block))
                 (evs @ [Redis_set most_recent_indexed_block_redis_key
                           (Num (block_number block)),
                         Redis_set most_recent_indexed_block_hash_redis_key
                           (Text (hash block))]))
        \<and> (\<exists>c d txs bs e1 uc uids e2 tc tids e3 sc e4 rc e5 pc pids e6 lc.
       filter is_current (blocks db) = [c]
       \<and> fetch_tx_receipts (getTransactionReceipt ctx) (transactions block) = Inr d
       \<and> lookup_receipts d (sort_key tx_hash (transactions block)) = Inr txs
       \<and> add_block c \<lparr>blockhash = hash block, number = Some (block_number block),
                       parenthash = parentHash block, is_current = True\<rparr>
            (map (\<lambda>b. if b = c then b\<lparr>is_current := False\<rparr> else b) (blocks db)) = Inr bs
       \<and> user_state_update ctx (entities db) (factory_txs (user_factory ctx) txs)
           (block_number block) (timestamp block) = Inr (e1, uc, uids)
       \<and> track_state_update ctx e1 (factory_txs (track_factory ctx) txs)
           (block_number block) (timestamp block) = Inr (e2, tc, tids)
       \<and> social_feature_state_update ctx e2 (factory_txs (social_feature_factory ctx) txs)
           (block_number block) (timestamp block) = Inr (e3, sc)
       \<and> user_replica_set_state_update ctx e3 (factory_txs (user_replica_set_manager ctx) txs)
           (block_number block) (timestamp block) = Inr (e4, rc)
       \<and> playlist_state_update ctx e4 (factory_txs (playlist_factory ctx) txs)
           (block_number block) (timestamp block) = Inr (e5, pc, pids)
       \<and> user_library_state_update ctx e5 (factory_txs (user_library_factory ctx) txs)
           (block_number block) (timestamp block) = Inr (e6, lc)
       \<and> db' = \<lparr>blocks = bs, entities = e6\<rparr>
       \<and> evs = Commit
           # (if 0 < uc \<and> uids \<noteq> [] then [Remove_cached_user_ids uids] else [])
           @ (if (0 < uc \<or> 0 < tc) \<and> tids \<noteq> [] then [Remove_cached_track_ids tids] else [])
           @ (if 0 < pc \<and> pids \<noteq> [] then [Remove_cached_playlist_ids pids] else [])))"
proof (intro conjI impI)
  show "after_commit [] (snd (snd (index_blocks ctx db blocks_list)))"
    using index_loop_trace [of "[]" "[]" ctx "block_order blocks_list" db]
    by (simp add: index_blocks_def)
  show "index_blocks ctx db blocks_list = index_loop ctx (rev blocks_list) db []"
    by (simp add: index_blocks_def block_order_def)
next
  assume "index_block ctx block db = Inl e"
  then show "index_loop ctx (block # rest) db trace = (Some e, db, trace)"
    by (simp add: scoped_session_def)
next
  assume r: "index_block ctx block db = Inr (db', evs)"
  then show "index_loop ctx (block # rest) db trace
          = index_loop ctx rest db'
              (trace @ map (Pair (hash block))
                 (evs @ [Redis_set most_recent_indexed_block_redis_key
                           (Num (block_number block)),
                         Redis_set most_recent_indexed_block_hash_redis_key
                           (Text (hash block))]))"
    by (simp add: scoped_session_def publish_def)
  from index_block_Inr [OF r]
  show "\<exists>c d txs bs e1 uc uids e2 tc tids e3 sc e4 rc e5 pc pids e6 lc.
       filter is_current (blocks db) = [c]
       \<and> fetch_tx_receipts (getTransactionReceipt ctx) (transactions block) = Inr d
       \<and> lookup_receipts d (sort_key tx_hash (transactions block)) = Inr txs
       \<and> add_block c \<lparr>blockhash = hash block, number = Some (block_number block),
                       parenthash = parentHash block, is_current = True\<rparr>
            (map (\<lambda>b. if b = c then b\<lparr>is_current := False\<rparr> else b) (blocks db)) = Inr bs
       \<and> user_state_update ctx (entities db) (factory_txs (user_factory ctx) txs)
           (block_number block) (timestamp block) = Inr (e1, uc, uids)
       \<and> track_state_update ctx e1 (factory_txs (track_factory ctx) txs)
           (block_number block) (timestamp block) = Inr (e2, tc, tids)
       \<and> social_feature_state_update ctx e2 (factory_txs (social_feature_factory ctx) txs)
           (block_number block) (timestamp block) = Inr (e3, sc)
       \<and> user_replica_set_state_update ctx e3 (factory_txs (user_replica_set_manager ctx) txs)
           (block_number block) (timestamp block) = Inr (e4, rc)
       \<and> playlist_state_update ctx e4 (factory_txs (playlist_factory ctx) txs)
           (block_number block) (timestamp block) = Inr (e5, pc, pids)
       \<and> user_library_state_update ctx e5 (factory_txs (user_library_factory ctx) txs)
           (block_number block) (timestamp block) = Inr (e6, lc)
       \<and> db' = \<lparr>blocks = bs, entities = e6\<rparr>
       \<and> evs = Commit
           # (if 0 < uc \<and> uids \<noteq> [] then [Remove_cached_user_ids uids] else [])
           @ (if (0 < uc \<or> 0 < tc) \<and> tids \<noteq> [] then [Remove_cached_track_ids tids] else [])
           @ (if 0 < pc \<and> pids \<noteq> [] then [Remove_cached_playlist_ids pids] else [])" .
qed

lemmas index_defs = index_blocks_def block_order_def scoped_session_def index_block_def
  bind_result_def fetch_tx_receipts_def collect_receipt_def fetch_tx_receipt_def
  add_block_def factory_txs_def follow_state_update_def no_update_def no_ids_update_def
  report_update_def apply_follow_def publish_def

lemmas scenario_defs = follow_context_def follow_state_def follow_entities_def follow_1_2_def
  unfollow_1_2_def chain_B1_def chain_B2_def chain_B3_def row_of_def indexed_state_def
  reorg_blocks_def row_H0_def row_H1_def

theorem side_effects_after_commit_witness:
  "index_block report_context chain_B1 follow_state
     = Inr (report_state,
            [Commit, Remove_cached_user_ids [1], Remove_cached_track_ids [7],
             Remove_cached_playlist_ids [3]])
   \<and> index_blocks report_context follow_state [chain_B1]
     = (None, report_state,
        [(''B1'', Commit), (''B1'', Remove_cached_user_ids [1]),
         (''B1'', Remove_cached_track_ids [7]), (''B1'', Remove_cached_playlist_ids [3]),
         (''B1'', Redis_set most_recent_indexed_block_redis_key (Num 12)),
         (''B1'', Redis_set most_recent_indexed_block_hash_redis_key (Text ''B1''))])
   \<and> after_commit [] (snd (snd (index_blocks report_context follow_state [chain_B1])))
   \<and> index_block follow_context chain_B9 follow_state
       = Inl (Exception ''index.py | fetch_tx_receipts Expected $1 received 0'')
   \<and> index_loop follow_context [chain_B9, chain_B2] follow_state [(''B1'', Commit)]
       = (Some (Exception ''index.py | fetch_tx_receipts Expected $1 received 0''),
          follow_state, [(''B1'', Commit)])"
proof -
  have f: "index_block follow_context chain_B9 follow_state
             = Inl (Exception ''index.py | fetch_tx_receipts Expected $1 received 0'')"
    by (simp add: index_block_def follow_context_def chain_B9_def follow_state_def
        reorg_blocks_def row_H0_def row_H1_def fetch_tx_receipts_def collect_receipt_def
        fetch_tx_receipt_def bind_result_def str.simps)
  have g: "index_block report_context chain_B1 follow_state
     = Inr (report_state,
            [Commit, Remove_cached_user_ids [1], Remove_cached_track_ids [7],
             Remove_cached_playlist_ids [3]])"
    by (simp add: index_defs report_context_def report_state_def scenario_defs Let_def)
  from side_effects_after_commit
         [of follow_context follow_state "[]" chain_B9
             "Exception ''index.py | fetch_tx_receipts Expected $1 received 0''"
             "[chain_B2]" "[(''B1'', Commit)]"] f
  have h: "index_loop follow_context [chain_B9, chain_B2] follow_state [(''B1'', Commit)]
       = (Some (Exception ''index.py | fetch_tx_receipts Expected $1 received 0''),
          follow_state, [(''B1'', Commit)])"
    by simp
  from side_effects_after_commit
         [of report_context follow_state "[chain_B1]" chain_B1 _ "[]" "[]" report_state
             "[Commit, Remove_cached_user_ids [1], Remove_cached_track_ids [7],
               Remove_cached_playlist_ids [3]]"] g
  have i: "after_commit [] (snd (snd (index_blocks report_context follow_state [chain_B1])))
     \<and> index_blocks report_context follow_state [chain_B1]
     = (None, report_state,
        [(''B1'', Commit), (''B1'', Remove_cached_user_ids [1]),
         (''B1'', Remove_cached_track_ids [7]), (''B1'', Remove_cached_playlist_ids [3]),
         (''B1'', Redis_set most_recent_indexed_block_redis_key (Num 12)),
         (''B1'', Redis_set most_recent_indexed_block_hash_redis_key (Text ''B1''))])"
    by (simp add: chain_B1_def)
  from f g h i show ?thesis by simp
qed

subsection \<open>Round trip\<close>

text \<open>
  C3. The state before \<open>B1\<close> has \<open>H1\<close> current and one current follow row, user 1
  following user 2. Indexing \<open>B1\<close> (which carries the unfollow), \<open>B2\<close> and \<open>B3\<close> and then
  reverting \<open>[B3, B2, B1]\<close> gives back the Block table of the start, with \<open>H1\<close> current,
  but not the current entity rows: the follow row that was current before \<open>B1\<close> is
  still stored and is no longer current, so no follow row is current.
\<close>

theorem round_trip_loses_follow:
  "index_blocks follow_context follow_state [chain_B3, chain_B2, chain_B1]
     = (None, indexed_state,
        map (Pair ''B1'') (Commit # publish chain_B1)
        @ map (Pair ''B2'') (Commit # publish chain_B2)
        @ map (Pair ''B3'') (Commit # publish chain_B3))
   \<and> revert_blocks indexed_state
        [row_of chain_B3 True, row_of chain_B2 False, row_of chain_B1 False]
     = (None, \<lparr>blocks = blocks follow_state,
               entities = follow_entities\<lparr>follows := [follow_1_2\<lparr>row_is_current := False\<rparr>]\<rparr>\<rparr>)
   \<and> filter row_is_current (follows (entities follow_state)) = [follow_1_2]
   \<and> filter row_is_current [follow_1_2\<lparr>row_is_current := False\<rparr>] = []"
  by (simp add: index_blocks_def block_order_def scoped_session_def index_block_def
      bind_result_def fetch_tx_receipts_def collect_receipt_def fetch_tx_receipt_def
      add_block_def factory_txs_def follow_state_update_def no_update_def no_ids_update_def
      apply_follow_def publish_def scenario_defs Let_def
      revert_blocks_def revert_one_def revert_block_rows_def revert_users_def
      revert_tracks_def revert_playlists_def revert_follows_def revert_reposts_def revert_saves_def
      stamped_def revert_entry_def revert_entry_below_def set_current_def delete_row_def
      scoped_session_def bind_result_def
      revert_parent_hash_def default_padded_start_hash_def)

end
